theory Spec2Isabelle
  imports Main
begin

section \<open>Cloud objects of dataplug: data model\<close>

text \<open>
  A shallow embedding of \<^verbatim>\<open>src/dataplug/cloudobject.py\<close>. Python objects are records,
  every mutation of \<^verbatim>\<open>self\<close> is returned as the new state of the reference, every
  exception is a value, and every call to the object store is appended to a trace.
\<close>

subsection \<open>Exceptions\<close>

text \<open>
  The exceptions the module raises or lets through. \<^verbatim>\<open>Exception\<close> carries its
  message, since the module tells its own failures apart by message only.
  \<open>TransportError\<close> stands for any exception of a collaborator that is neither a
  \<^verbatim>\<open>KeyError\<close> nor one of the others.
\<close>

datatype exn =
    KeyError
  | TypeError
  | Exception string
  | MalformedURI
  | CorruptAttributes
  | FileNotFoundError
  | TransportError

subsection \<open>Cloud data types\<close>

text \<open>
  The argument of the decorator call is any Python object; \<^verbatim>\<open>inspect.isclass\<close>
  tells classes from the rest.
\<close>

datatype pyobj = PyClass string | PyOther string

fun isclass :: "pyobj \<Rightarrow> bool" where
  "isclass (PyClass n) = True"
| "isclass (PyOther n) = False"

text \<open>
  A preprocessor class, with what \<^verbatim>\<open>issubclass\<close> answers for the two preprocessor
  base classes.
\<close>

record preprocessor_cls =
  pp_name :: string
  is_batch :: bool
  is_map_reduce :: bool

text \<open>
  \<^verbatim>\<open>CloudDataType\<close>: the bound class, the own preprocessor and the parent, each
  \<^verbatim>\<open>None\<close> or set. The parent is fixed at construction and private, so the chain of
  parents is finite.
\<close>

datatype CloudDataType =
  CloudDataType (co_class: "pyobj option")
                (own_preprocessor: "preprocessor_cls option")
                (parent: "CloudDataType option")

text \<open>The property \<^verbatim>\<open>CloudDataType.preprocessor\<close> (lines 35-44).\<close>

fun preprocessor :: "CloudDataType \<Rightarrow> exn + preprocessor_cls" where
  "preprocessor (CloudDataType c (Some p) par) = Inr p"
| "preprocessor (CloudDataType c None (Some par)) = preprocessor par"
| "preprocessor (CloudDataType c None None) = Inl (Exception ''There is not preprocessor'')"

text \<open>
  \<^verbatim>\<open>CloudDataType.__call__\<close> (lines 46-55). The result is the exception raised, if
  any, and the state of the descriptor after the call; a call that does not raise returns
  the descriptor itself.
\<close>

definition CloudDataType_call :: "CloudDataType \<Rightarrow> pyobj \<Rightarrow> exn option \<times> CloudDataType" where
  "CloudDataType_call self cls =
     (if \<not> isclass cls then (Some TypeError, self)
      else if co_class self = None
        then (None, CloudDataType (Some cls) (own_preprocessor self) (parent self))
        else (Some (Exception ''Can't overwrite decorator''), self))"

subsection \<open>Object locations\<close>

text \<open>\<^verbatim>\<open>PureS3Path\<close>: a bucket and a key.\<close>

record s3path =
  bucket :: string
  key :: string

text \<open>
  Modelled from the spec: \<^verbatim>\<open>PureS3Path.from_bucket_key\<close> of \<^verbatim>\<open>dataplug.storage\<close> is
  not among the sources; an object location is the pair of its bucket and its key.
\<close>

definition from_bucket_key :: "string \<Rightarrow> string \<Rightarrow> s3path" where
  "from_bucket_key b k = \<lparr>bucket = b, key = k\<rparr>"

text \<open>The rest of a string after the first occurrence of \<^verbatim>\<open>://\<close>, if there is one.\<close>

fun after_scheme :: "string \<Rightarrow> string option" where
  "after_scheme [] = None"
| "after_scheme (c # cs) =
     (if take 3 (c # cs) = ''://'' then Some (drop 3 (c # cs)) else after_scheme cs)"

text \<open>
  Modelled from the spec: \<^verbatim>\<open>split_s3_path\<close> of \<^verbatim>\<open>dataplug.util\<close> is not among the
  sources. The location format is \<^verbatim>\<open>scheme://bucket/key\<close>: the bucket is the first
  path segment and the key is the remainder; a string without the scheme separator or
  without a separator after the bucket is malformed.
\<close>

definition split_s3_path :: "string \<Rightarrow> exn + (string \<times> string)" where
  "split_s3_path uri =
     (case after_scheme uri of
        None \<Rightarrow> Inl MalformedURI
      | Some rest \<Rightarrow>
          (case dropWhile (\<lambda>c. c \<noteq> CHR ''/'') rest of
             [] \<Rightarrow> Inl MalformedURI
           | _ # k \<Rightarrow> Inr (takeWhile (\<lambda>c. c \<noteq> CHR ''/'') rest, k)))"

text \<open>
  Modelled from the spec: \<^verbatim>\<open>PureS3Path.from_uri\<close> of \<^verbatim>\<open>dataplug.storage\<close> is not
  among the sources. It parses the same \<^verbatim>\<open>scheme://bucket/key\<close> format into a location
  and fails with \<open>MalformedURI\<close> where the pattern does not match.
\<close>

definition from_uri :: "string \<Rightarrow> exn + s3path" where
  "from_uri uri =
     (case split_s3_path uri of
        Inl e \<Rightarrow> Inl e
      | Inr (b, k) \<Rightarrow> Inr (from_bucket_key b k))"

subsection \<open>Cloud object references\<close>

text \<open>
  A HEAD record (\<^verbatim>\<open>Dict[str, str]\<close>) and the decoded attributes are association lists;
  the encoded attributes of a companion object are a string.
\<close>

type_synonym meta = "(string \<times> string) list"
type_synonym attrs = "(string \<times> string) list"

text \<open>
  \<^verbatim>\<open>CloudObject\<close>. The field \<open>s3\<close> is the store handle, given by the configuration
  its client proxy is built from.
\<close>

record CloudObject =
  obj_meta :: "meta option"
  meta_meta :: "meta option"
  obj_path :: s3path
  meta_path :: s3path
  cls :: CloudDataType
  s3 :: "(string \<times> string) list"
  obj_attrs :: attrs

text \<open>
  \<^verbatim>\<open>CloudObject.__init__\<close> (lines 59-89). It calls no operation of the store, so it
  neither takes nor returns the state of the store.
\<close>

definition CloudObject_init ::
  "CloudDataType \<Rightarrow> string \<Rightarrow> (string \<times> string) list option \<Rightarrow> exn + CloudObject" where
  "CloudObject_init data_type s3_uri_path s3_config =
     (case from_uri s3_uri_path of
        Inl e \<Rightarrow> Inl e
      | Inr p \<Rightarrow>
          Inr \<lparr>obj_meta = None,
               meta_meta = None,
               obj_path = p,
               meta_path = from_bucket_key (bucket p @ ''.meta'') (key p),
               cls = data_type,
               s3 = (case s3_config of None \<Rightarrow> [] | Some c \<Rightarrow> c),
               obj_attrs = []\<rparr>)"

subsection \<open>The object store\<close>

text \<open>
  The calls made to the collaborators: a HEAD of a bucket and a key, an upload of a
  local file to a bucket and a key, and the two jobs of a preprocessing backend, with
  the name of the preprocessor class.
\<close>

datatype call =
    HeadObject string string
  | UploadFile string string string
  | PreprocessBatch string
  | PreprocessMapReduce string


text \<open>
  \<^verbatim>\<open>head_object\<close> and \<^verbatim>\<open>load_attributes\<close> of \<^verbatim>\<open>dataplug.util\<close> are not among the
  sources, so what they answer is a parameter: \<open>head_response\<close> gives, for a bucket and
  a key, the HEAD record and the encoded attributes or the exception raised
  (\<^verbatim>\<open>KeyError\<close> when there is no such object), and \<open>load_attributes\<close> gives, for the
  encoded attributes, the namespace built from the decoded mapping or the exception
  raised. The client's \<^verbatim>\<open>upload_file\<close> is a parameter as well: \<open>upload_response\<close>
  gives, for a local file, a bucket and a key, the exception the upload raises, if any.
  \<open>calls\<close> is the trace of the calls made so far.
\<close>

record world =
  head_response :: "string \<times> string \<Rightarrow> exn + (meta \<times> string)"
  load_attributes :: "string \<Rightarrow> exn + attrs"
  upload_response :: "string \<times> string \<times> string \<Rightarrow> exn option"
  calls :: "call list"

definition head_object :: "world \<Rightarrow> string \<Rightarrow> string \<Rightarrow> (exn + (meta \<times> string)) \<times> world" where
  "head_object w b k = (head_response w (b, k), w\<lparr>calls := calls w @ [HeadObject b k]\<rparr>)"


text \<open>
  Python's truth value of a slot: \<^verbatim>\<open>None\<close> and the empty dict are false.
\<close>

fun truthy :: "meta option \<Rightarrow> bool" where
  "truthy None = False"
| "truthy (Some d) = (d \<noteq> [])"

subsection \<open>What the store holds at a location\<close>



definition answers :: "world \<Rightarrow> s3path \<Rightarrow> bool" where
  "answers w p =
     (case head_response w (bucket p, key p) of
        Inr r \<Rightarrow> True
      | Inl e \<Rightarrow> e = KeyError)"


text \<open>
  A fetch reaches the companion slot when its first block raises nothing: the object
  slot holds a record already, or the HEAD of the object answers a record, or it raises
  \<^verbatim>\<open>KeyError\<close> and the object is not enforced.
\<close>

definition reaches_companion :: "CloudObject \<Rightarrow> world \<Rightarrow> bool \<Rightarrow> bool" where
  "reaches_companion co w enforce_obj =
     (truthy (obj_meta co) \<or>
      (case head_response w (bucket (obj_path co), key (obj_path co)) of
         Inr r \<Rightarrow> True
       | Inl e \<Rightarrow> e = KeyError \<and> \<not> enforce_obj))"

subsection \<open>Fetching the metadata\<close>

text \<open>
  \<^verbatim>\<open>CloudObject.fetch\<close> (lines 148-175). The result is the exception raised or the
  value returned, the reference after the call and the store after the call. The
  \<^verbatim>\<open>return\<close> statement stands inside the second \<^verbatim>\<open>if\<close>: when that block is skipped
  the function ends without one and the value is \<^verbatim>\<open>None\<close>, here \<open>Inr None\<close>.
\<close>

type_synonym fetch_result =
  "(exn + (meta option \<times> meta option) option) \<times> CloudObject \<times> world"

definition fetch :: "CloudObject \<Rightarrow> world \<Rightarrow> bool \<Rightarrow> bool \<Rightarrow> fetch_result" where
  "fetch self w enforce_obj enforce_meta =
     (case
        (if \<not> truthy (obj_meta self) then
           (case head_object w (bucket (obj_path self)) (key (obj_path self)) of
              (Inr (res, _), w') \<Rightarrow> (None, self\<lparr>obj_meta := Some res\<rparr>, w')
            | (Inl e, w') \<Rightarrow>
                if e = KeyError
                then (if enforce_obj then Some e else None, self\<lparr>obj_meta := None\<rparr>, w')
                else (Some e, self, w'))
         else (None, self, w))
      of
        (Some e, self1, w1) \<Rightarrow> (Inl e, self1, w1)
      | (None, self1, w1) \<Rightarrow>
          if \<not> truthy (meta_meta self1) then
            (case head_object w1 (bucket (meta_path self1)) (key (meta_path self1)) of
               (Inr (res, encoded_attrs), w2) \<Rightarrow>
                 (let self2 = self1\<lparr>meta_meta := Some res\<rparr> in
                  case load_attributes w2 encoded_attrs of
                    Inr a \<Rightarrow>
                      (let self3 = self2\<lparr>obj_attrs := a\<rparr>
                       in (Inr (Some (obj_meta self3, meta_meta self3)), self3, w2))
                  | Inl e \<Rightarrow>
                      if e = KeyError
                      then (let self3 = self2\<lparr>meta_meta := None\<rparr>
                            in if enforce_meta then (Inl e, self3, w2)
                               else (Inr (Some (obj_meta self3, meta_meta self3)), self3, w2))
                      else (Inl e, self2, w2))
             | (Inl e, w2) \<Rightarrow>
                 if e = KeyError
                 then (let self3 = self1\<lparr>meta_meta := None\<rparr>
                       in if enforce_meta then (Inl e, self3, w2)
                          else (Inr (Some (obj_meta self3, meta_meta self3)), self3, w2))
                 else (Inl e, self1, w2))
          else (Inr None, self1, w1))"

text \<open>The reference and the store after one \<^verbatim>\<open>fetch()\<close> with the default flags.\<close>

definition after_fetch :: "CloudObject \<times> world \<Rightarrow> CloudObject \<times> world" where
  "after_fetch cw = snd (fetch (fst cw) (snd cw) False False)"

text \<open>\<^verbatim>\<open>CloudObject.exists\<close> (lines 136-139).\<close>

definition exists :: "CloudObject \<Rightarrow> world \<Rightarrow> (exn + bool) \<times> CloudObject \<times> world" where
  "exists self w =
     (if \<not> truthy (obj_meta self) then
        (case fetch self w False False of
           (Inl e, self1, w1) \<Rightarrow> (Inl e, self1, w1)
         | (Inr _, self1, w1) \<Rightarrow> (Inr (truthy (obj_meta self1)), self1, w1))
      else (Inr (truthy (obj_meta self)), self, w))"

text \<open>\<^verbatim>\<open>CloudObject.is_preprocessed\<close> (lines 141-146).\<close>

definition is_preprocessed :: "CloudObject \<Rightarrow> world \<Rightarrow> (exn + bool) \<times> world" where
  "is_preprocessed self w =
     (case head_object w (bucket (meta_path self)) (key (meta_path self)) of
        (Inr _, w1) \<Rightarrow> (Inr True, w1)
      | (Inl e, w1) \<Rightarrow> if e = KeyError then (Inr False, w1) else (Inl e, w1))"

text \<open>
  \<^verbatim>\<open>CloudObject.from_s3\<close> (lines 117-122). When the fetch raises, no reference is
  returned.
\<close>

definition from_s3 ::
  "CloudDataType \<Rightarrow> string \<Rightarrow> (string \<times> string) list option \<Rightarrow> bool \<Rightarrow> world
     \<Rightarrow> (exn + CloudObject) \<times> world" where
  "from_s3 cloud_object_class s3_path s3_config do_fetch w =
     (case CloudObject_init cloud_object_class s3_path s3_config of
        Inl e \<Rightarrow> (Inl e, w)
      | Inr co_instance \<Rightarrow>
          if do_fetch then
            (case fetch co_instance w True False of
               (Inl e, co1, w1) \<Rightarrow> (Inl e, w1)
             | (Inr _, co1, w1) \<Rightarrow> (Inr co1, w1))
          else (Inr co_instance, w))"


subsection \<open>Preprocessing\<close>

text \<open>
  A preprocessor instance is its class and the arguments it was built from. A
  preprocessing backend (\<^verbatim>\<open>PreprocessorBackendBase\<close>, not among the sources) is a
  parameter: its two entry points take the instance, the reference and the store, and
  give the exception raised, if any, with the reference and the store after the job.
\<close>

type_synonym preprocessor_instance = "preprocessor_cls \<times> string list"

record backend =
  preprocess_batch ::
    "preprocessor_instance \<Rightarrow> CloudObject \<Rightarrow> world \<Rightarrow> exn option \<times> CloudObject \<times> world"
  preprocess_map_reduce ::
    "preprocessor_instance \<Rightarrow> CloudObject \<Rightarrow> world \<Rightarrow> exn option \<times> CloudObject \<times> world"

text \<open>
  \<^verbatim>\<open>CloudObject.preprocess\<close> (lines 177-196). \<^verbatim>\<open>is_preprocessed\<close> is called first,
  whatever \<^verbatim>\<open>force\<close> is.
\<close>

definition preprocess ::
  "CloudObject \<Rightarrow> world \<Rightarrow> backend \<Rightarrow> bool \<Rightarrow> string list \<Rightarrow> exn option \<times> CloudObject \<times> world" where
  "preprocess self w preprocessor_backend force args =
     (case is_preprocessed self w of
        (Inl e, w1) \<Rightarrow> (Some e, self, w1)
      | (Inr pre, w1) \<Rightarrow>
          if \<not> pre \<and> \<not> force
          then (Some (Exception ''Object is already preprocessed''), self, w1)
          else
            (case preprocessor (cls self) of
               Inl e \<Rightarrow> (Some e, self, w1)
             | Inr p \<Rightarrow>
                 if is_batch p
                 then preprocess_batch preprocessor_backend (p, args) self w1
                 else if is_map_reduce p
                 then preprocess_map_reduce preprocessor_backend (p, args) self w1
                 else (Some (Exception ''This object cannot be preprocessed''), self, w1)))"

subsection \<open>Partitioning\<close>

text \<open>
  \<^verbatim>\<open>CloudObjectSlice\<close> of \<^verbatim>\<open>dataplug.dataslice\<close> is not among the sources. A slice
  is a descriptor of the strategy's own and a back-reference to the reference that owns
  it, \<^verbatim>\<open>None\<close> until the slice is contextualized.
\<close>

record 'd CloudObjectSlice =
  descriptor :: 'd
  cloud_object :: "CloudObject option"

text \<open>
  Modelled from the spec: \<^verbatim>\<open>CloudObjectSlice._contextualize\<close> is not among the sources;
  it binds the slice to its owning reference.
\<close>

definition contextualize :: "'d CloudObjectSlice \<Rightarrow> CloudObject \<Rightarrow> 'd CloudObjectSlice" where
  "contextualize s co = s\<lparr>cloud_object := Some co\<rparr>"

text \<open>
  \<^verbatim>\<open>CloudObject.partition\<close> (lines 207-216). The strategy, with its arguments, is a
  parameter: it takes the reference and the store and gives the slices or the exception
  raised, with the reference and the store after it ran.
\<close>

definition CloudObject_partition ::
  "CloudObject \<Rightarrow> world
     \<Rightarrow> (CloudObject \<Rightarrow> world \<Rightarrow> (exn + 'd CloudObjectSlice list) \<times> CloudObject \<times> world)
     \<Rightarrow> (exn + 'd CloudObjectSlice list) \<times> CloudObject \<times> world" where
  "CloudObject_partition self w strategy =
     (case strategy self w of
        (Inl e, self1, w1) \<Rightarrow> (Inl e, self1, w1)
      | (Inr slices, self1, w1) \<Rightarrow> (Inr (map (\<lambda>s. contextualize s self1) slices), self1, w1))"

subsection \<open>Example values\<close>

text \<open>
  A store built from the list of its objects: a HEAD of a listed location answers the
  listed record and encoded attributes, any other HEAD raises \<^verbatim>\<open>KeyError\<close>; the
  payload \<^verbatim>\<open>corrupt\<close> does not decode, any other payload decodes to one attribute;
  the local file \<^verbatim>\<open>missing.csv\<close> does not exist, any other file uploads.
\<close>

definition store :: "((string \<times> string) \<times> meta \<times> string) list \<Rightarrow> world" where
  "store objs =
     \<lparr>head_response = (\<lambda>p. case map_of objs p of None \<Rightarrow> Inl KeyError | Some r \<Rightarrow> Inr r),
      load_attributes = (\<lambda>enc. if enc = ''corrupt'' then Inl CorruptAttributes
                               else Inr [(''rows'', enc)]),
      upload_response = (\<lambda>u. if fst u = ''missing.csv'' then Some FileNotFoundError
                               else None),
      calls = []\<rparr>"

definition primary_obj :: "(string \<times> string) \<times> meta \<times> string" where
  "primary_obj = ((''bucket1'', ''data.csv''), [(''ContentLength'', ''10'')], [])"

definition companion_obj :: "(string \<times> string) \<times> meta \<times> string" where
  "companion_obj = ((''bucket1.meta'', ''data.csv''), [(''ContentLength'', ''2'')], ''42'')"

definition corrupt_companion_obj :: "(string \<times> string) \<times> meta \<times> string" where
  "corrupt_companion_obj =
     ((''bucket1.meta'', ''data.csv''), [(''ContentLength'', ''7'')], ''corrupt'')"

text \<open>A data type with a batch preprocessor, and a reference as the constructor makes it.\<close>

definition csv_preprocessor :: preprocessor_cls where
  "csv_preprocessor = \<lparr>pp_name = ''CSVPreprocessor'', is_batch = True, is_map_reduce = False\<rparr>"

definition csv_type :: CloudDataType where
  "csv_type = CloudDataType None (Some csv_preprocessor) None"

definition ref0 :: CloudObject where
  "ref0 =
     \<lparr>obj_meta = None,
      meta_meta = None,
      obj_path = \<lparr>bucket = ''bucket1'', key = ''data.csv''\<rparr>,
      meta_path = \<lparr>bucket = ''bucket1.meta'', key = ''data.csv''\<rparr>,
      cls = csv_type,
      s3 = [],
      obj_attrs = []\<rparr>"

text \<open>A backend that records the job it is given and does nothing else.\<close>

definition recording_backend :: backend where
  "recording_backend =
     \<lparr>preprocess_batch =
        (\<lambda>inst co w. (None, co, w\<lparr>calls := calls w @ [PreprocessBatch (pp_name (fst inst))]\<rparr>)),
      preprocess_map_reduce =
        (\<lambda>inst co w. (None, co, w\<lparr>calls := calls w @ [PreprocessMapReduce (pp_name (fst inst))]\<rparr>))\<rparr>"

text \<open>A strategy that cuts three byte ranges and touches neither reference nor store.\<close>

definition three_ranges ::
  "CloudObject \<Rightarrow> world \<Rightarrow> (exn + (nat \<times> nat) CloudObjectSlice list) \<times> CloudObject \<times> world" where
  "three_ranges co w =
     (Inr [\<lparr>descriptor = (0, 4), cloud_object = None\<rparr>,
           \<lparr>descriptor = (4, 8), cloud_object = None\<rparr>,
           \<lparr>descriptor = (8, 10), cloud_object = None\<rparr>], co, w)"

section \<open>Properties\<close>

subsection \<open>Auxiliary facts\<close>

lemmas example_defs = store_def primary_obj_def companion_obj_def corrupt_companion_obj_def
  csv_preprocessor_def csv_type_def ref0_def recording_backend_def three_ranges_def

lemmas run_defs = fetch_def head_object_def after_fetch_def exists_def


lemma after_scheme_append:
  "CHR '':'' \<notin> set scheme \<Longrightarrow>
     after_scheme (scheme @ CHR '':'' # CHR ''/'' # CHR ''/'' # rest) = Some rest"
  by (induction scheme) auto

lemma first_segment:
  "CHR ''/'' \<notin> set b \<Longrightarrow>
     takeWhile (\<lambda>c. c \<noteq> CHR ''/'') (b @ CHR ''/'' # k) = b \<and>
     dropWhile (\<lambda>c. c \<noteq> CHR ''/'') (b @ CHR ''/'' # k) = CHR ''/'' # k"
  by (induction b) auto

lemma split_s3_path_canonical:
  "CHR '':'' \<notin> set scheme \<Longrightarrow> CHR ''/'' \<notin> set b \<Longrightarrow>
     split_s3_path (scheme @ CHR '':'' # CHR ''/'' # CHR ''/'' # b @ CHR ''/'' # k) = Inr (b, k)"
  by (simp add: split_s3_path_def after_scheme_append first_segment)

lemma from_uri_canonical:
  "CHR '':'' \<notin> set scheme \<Longrightarrow> CHR ''/'' \<notin> set b \<Longrightarrow>
     from_uri (scheme @ ''://'' @ b @ ''/'' @ k) = Inr \<lparr>bucket = b, key = k\<rparr>"
  by (simp add: from_uri_def split_s3_path_canonical from_bucket_key_def)


lemma fetch_frame:
  "fetch co w eo em = (r, co', w') \<Longrightarrow>
     obj_path co' = obj_path co \<and> meta_path co' = meta_path co \<and> cls co' = cls co \<and>
     s3 co' = s3 co \<and> head_response w' = head_response w \<and>
     load_attributes w' = load_attributes w \<and> upload_response w' = upload_response w"
  by (auto simp: fetch_def head_object_def Let_def
      split: if_splits sum.splits prod.splits option.splits)

lemma fetch_triple:
  "fetch co w eo em =
     (fst (fetch co w eo em), fst (snd (fetch co w eo em)), snd (snd (fetch co w eo em)))"
  by simp

lemma exists_triple:
  "exists co w = (fst (exists co w), fst (snd (exists co w)), snd (snd (exists co w)))"
  by simp

subsection \<open>The preprocessing guard\<close>

text \<open>
  Claim C1. When \<^verbatim>\<open>is_preprocessed()\<close> is true, \<^verbatim>\<open>preprocess(backend, force=False)\<close>
  fails with the "already preprocessed" error; when it is false and \<^verbatim>\<open>force\<close> is
  false, preprocess does not fail with that error and goes on to dispatch.

  The code does the reverse. On a store that holds the primary object only,
  \<^verbatim>\<open>is_preprocessed()\<close> is false and \<^verbatim>\<open>preprocess\<close> raises
  \<^verbatim>\<open>Exception('Object is already preprocessed')\<close>; on a store that holds the companion
  too, \<^verbatim>\<open>is_preprocessed()\<close> is true and \<^verbatim>\<open>preprocess\<close> raises nothing and runs the
  batch job. The message of the exception and the docstring of \<^verbatim>\<open>force\<close> ("even if it
  is already preprocessed") say what was meant.
\<close>

theorem preprocess_guard_inverted:
  "fst (is_preprocessed ref0 (store [primary_obj])) = Inr False \<and>
   fst (preprocess ref0 (store [primary_obj]) recording_backend False []) =
     Some (Exception ''Object is already preprocessed'') \<and>
   fst (is_preprocessed ref0 (store [primary_obj, companion_obj])) = Inr True \<and>
   fst (preprocess ref0 (store [primary_obj, companion_obj]) recording_backend False []) = None \<and>
   calls (snd (snd (preprocess ref0 (store [primary_obj, companion_obj])
                      recording_backend False []))) =
     [HeadObject ''bucket1.meta'' ''data.csv'', PreprocessBatch ''CSVPreprocessor'']"
  by (simp add: preprocess_def is_preprocessed_def head_object_def example_defs)

text \<open>
  In general: whenever \<^verbatim>\<open>is_preprocessed()\<close> answers, an unforced \<^verbatim>\<open>preprocess\<close>
  raises the "already preprocessed" error if the answer is false, and hands a batch
  preprocessor to the backend if the answer is true.
\<close>

lemma preprocess_guard:
  "is_preprocessed co w = (Inr pre, w1) \<Longrightarrow>
     (\<not> pre \<longrightarrow>
        preprocess co w b False args =
          (Some (Exception ''Object is already preprocessed''), co, w1)) \<and>
     (pre \<and> preprocessor (cls co) = Inr p \<and> is_batch p \<longrightarrow>
        preprocess co w b False args = preprocess_batch b (p, args) co w1)"
  by (simp add: preprocess_def)

subsection \<open>Lookups of a fetch\<close>

text \<open>
  Claim C2, as amended. A fetch issues no lookup for a slot that holds a metadata record
  at the call, and leaves that slot as it is. It issues one HEAD for the object slot when
  that slot holds no record, and one HEAD for the companion slot when that slot holds no
  record and the fetch reaches it, and no other call. After its lookup the object slot
  holds the record the HEAD answered, or \<^verbatim>\<open>None\<close> when the HEAD raised
  \<^verbatim>\<open>KeyError\<close>; the companion slot holds the record the HEAD answered unless the
  decoding raised \<^verbatim>\<open>KeyError\<close>, and \<^verbatim>\<open>None\<close> when the HEAD or the decoding raised
  \<^verbatim>\<open>KeyError\<close>; a HEAD that raises anything else leaves its slot as it is. A slot
  left at \<^verbatim>\<open>None\<close> is in the state it had before any fetch, so the next fetch that
  reaches it looks it up again.
\<close>

theorem fetch_lookups:
  "fetch co w eo em = (r, co', w') \<Longrightarrow>
   calls w' =
     calls w @
     (if truthy (obj_meta co) then []
      else [HeadObject (bucket (obj_path co)) (key (obj_path co))]) @
     (if reaches_companion co w eo \<and> \<not> truthy (meta_meta co)
      then [HeadObject (bucket (meta_path co)) (key (meta_path co))] else []) \<and>
   (truthy (obj_meta co) \<longrightarrow> obj_meta co' = obj_meta co) \<and>
   (truthy (meta_meta co) \<longrightarrow> meta_meta co' = meta_meta co) \<and>
   (\<not> truthy (obj_meta co) \<longrightarrow>
      obj_meta co' =
        (case head_response w (bucket (obj_path co), key (obj_path co)) of
           Inr (res, enc) \<Rightarrow> Some res
         | Inl e \<Rightarrow> if e = KeyError then None else obj_meta co)) \<and>
   (\<not> truthy (meta_meta co) \<and> reaches_companion co w eo \<longrightarrow>
      meta_meta co' =
        (case head_response w (bucket (meta_path co), key (meta_path co)) of
           Inr (res, enc) \<Rightarrow>
             (case load_attributes w enc of
                Inr a \<Rightarrow> Some res
              | Inl e \<Rightarrow> if e = KeyError then None else Some res)
         | Inl e \<Rightarrow> if e = KeyError then None else meta_meta co)) \<and>
   (\<not> reaches_companion co w eo \<longrightarrow> meta_meta co' = meta_meta co)"
  by (auto simp: fetch_def head_object_def Let_def reaches_companion_def
      split: if_splits sum.splits prod.splits option.splits)

text \<open>
  On a store that holds both objects the first fetch issues one HEAD per slot and fills
  both slots, and the second fetch calls the store not at all and leaves the reference as
  it is. On an empty store the first fetch leaves both slots at \<^verbatim>\<open>None\<close>. A fetch
  that enforces the object on an empty store stops after the HEAD of the object and
  leaves the companion slot as it is.
\<close>

theorem fetch_lookups_witness:
  "calls (snd (after_fetch (ref0, store [primary_obj, companion_obj]))) =
     [HeadObject ''bucket1'' ''data.csv'', HeadObject ''bucket1.meta'' ''data.csv''] \<and>
   obj_meta (fst (after_fetch (ref0, store [primary_obj, companion_obj]))) =
     Some [(''ContentLength'', ''10'')] \<and>
   meta_meta (fst (after_fetch (ref0, store [primary_obj, companion_obj]))) =
     Some [(''ContentLength'', ''2'')] \<and>
   calls (snd (after_fetch (after_fetch (ref0, store [primary_obj, companion_obj])))) =
     calls (snd (after_fetch (ref0, store [primary_obj, companion_obj]))) \<and>
   obj_meta (fst (after_fetch (after_fetch (ref0, store [primary_obj, companion_obj])))) =
     obj_meta (fst (after_fetch (ref0, store [primary_obj, companion_obj]))) \<and>
   meta_meta (fst (after_fetch (after_fetch (ref0, store [primary_obj, companion_obj])))) =
     meta_meta (fst (after_fetch (ref0, store [primary_obj, companion_obj]))) \<and>
   obj_meta (fst (after_fetch (ref0, store []))) = None \<and>
   meta_meta (fst (after_fetch (ref0, store []))) = None \<and>
   calls (snd (snd (fetch ref0 (store []) True False))) = [HeadObject ''bucket1'' ''data.csv''] \<and>
   meta_meta (fst (snd (fetch ref0 (store []) True False))) = meta_meta ref0"
proof -
  let ?both = "store [primary_obj, companion_obj]"
  let ?c1 = "fst (after_fetch (ref0, ?both))"
  let ?w1 = "snd (after_fetch (ref0, ?both))"
  have fresh: "\<not> truthy (obj_meta ref0) \<and> \<not> truthy (meta_meta ref0)"
    by (simp add: ref0_def)
  have paths: "obj_path ref0 = \<lparr>bucket = ''bucket1'', key = ''data.csv''\<rparr> \<and>
               meta_path ref0 = \<lparr>bucket = ''bucket1.meta'', key = ''data.csv''\<rparr>"
    by (simp add: ref0_def)
  have heads:
    "head_response ?both (''bucket1'', ''data.csv'') = Inr ([(''ContentLength'', ''10'')], []) \<and>
     head_response ?both (''bucket1.meta'', ''data.csv'') =
       Inr ([(''ContentLength'', ''2'')], ''42'') \<and>
     load_attributes ?both ''42'' = Inr [(''rows'', ''42'')] \<and> calls ?both = []"
    by (simp add: example_defs)
  have reach: "reaches_companion ref0 ?both False"
    by (simp add: reaches_companion_def example_defs)
  from fetch_lookups [OF fetch_triple, of ref0 ?both False False] fresh paths heads reach
  have a: "calls ?w1 =
             [HeadObject ''bucket1'' ''data.csv'', HeadObject ''bucket1.meta'' ''data.csv''] \<and>
           obj_meta ?c1 = Some [(''ContentLength'', ''10'')] \<and>
           meta_meta ?c1 = Some [(''ContentLength'', ''2'')]"
    by (simp add: after_fetch_def)
  then have filled: "truthy (obj_meta ?c1) \<and> truthy (meta_meta ?c1)"
    by simp
  from fetch_lookups [OF fetch_triple, of ?c1 ?w1 False False] filled
  have b: "calls (snd (after_fetch (?c1, ?w1))) = calls ?w1 \<and>
           obj_meta (fst (after_fetch (?c1, ?w1))) = obj_meta ?c1 \<and>
           meta_meta (fst (after_fetch (?c1, ?w1))) = meta_meta ?c1"
    by (simp add: after_fetch_def)
  have none: "head_response (store []) (''bucket1'', ''data.csv'') = Inl KeyError \<and>
              head_response (store []) (''bucket1.meta'', ''data.csv'') = Inl KeyError \<and>
              calls (store []) = []"
    by (simp add: example_defs)
  have reach0: "reaches_companion ref0 (store []) False"
    by (simp add: reaches_companion_def example_defs)
  from fetch_lookups [OF fetch_triple, of ref0 "store []" False False] fresh paths none reach0
  have c: "obj_meta (fst (after_fetch (ref0, store []))) = None \<and>
           meta_meta (fst (after_fetch (ref0, store []))) = None"
    by (simp add: after_fetch_def)
  have stop: "\<not> reaches_companion ref0 (store []) True"
    by (simp add: reaches_companion_def example_defs)
  from fetch_lookups [OF fetch_triple, of ref0 "store []" True False] fresh paths none stop
  have d: "calls (snd (snd (fetch ref0 (store []) True False))) =
             [HeadObject ''bucket1'' ''data.csv''] \<and>
           meta_meta (fst (snd (fetch ref0 (store []) True False))) = meta_meta ref0"
    by simp
  from a b c d show ?thesis by simp
qed

text \<open>
  Claim C2 as stated fails for a slot that was resolved absent: on an empty store the
  first fetch issues one HEAD per slot, and the second fetch issues both again.
\<close>

theorem fetch_absent_slot_looked_up_again:
  "calls (snd (after_fetch (ref0, store []))) =
     [HeadObject ''bucket1'' ''data.csv'', HeadObject ''bucket1.meta'' ''data.csv''] \<and>
   calls (snd (after_fetch (after_fetch (ref0, store [])))) =
     [HeadObject ''bucket1'' ''data.csv'', HeadObject ''bucket1.meta'' ''data.csv'',
      HeadObject ''bucket1'' ''data.csv'', HeadObject ''bucket1.meta'' ''data.csv'']"
  by (simp add: run_defs example_defs)

subsection \<open>The value a fetch returns\<close>

text \<open>
  Claim C3. A fetch that does not raise returns the pair of the object's record and the
  companion's record.

  The code does so only when the companion slot holds no record at the call. On a store
  that holds both objects the first fetch returns the pair of the two records; the
  second fetch, on the same reference, raises nothing and returns \<^verbatim>\<open>None\<close>, since the
  \<^verbatim>\<open>return\<close> statement stands inside the block that is skipped. The docstring and the
  annotation of \<^verbatim>\<open>fetch\<close> promise the tuple.
\<close>

theorem fetch_second_call_returns_None:
  "fst (fetch ref0 (store [primary_obj, companion_obj]) False False) =
     Inr (Some (Some [(''ContentLength'', ''10'')], Some [(''ContentLength'', ''2'')])) \<and>
   fst (fetch (fst (after_fetch (ref0, store [primary_obj, companion_obj])))
              (snd (after_fetch (ref0, store [primary_obj, companion_obj]))) False False) =
     Inr None"
  by (simp add: run_defs example_defs)

text \<open>
  In general: a fetch that does not raise returns \<^verbatim>\<open>None\<close> when the companion slot
  held a record at the call, and the pair of the two slots otherwise.
\<close>

lemma fetch_return_value:
  "fetch co w eo em = (Inr v, co', w') \<Longrightarrow>
     (truthy (meta_meta co) \<longrightarrow> v = None) \<and>
     (\<not> truthy (meta_meta co) \<longrightarrow> v = Some (obj_meta co', meta_meta co'))"
  by (auto simp: fetch_def head_object_def Let_def
      split: if_splits sum.splits prod.splits option.splits)

subsection \<open>Preprocessor resolution\<close>

text \<open>
  Claim C4. Preprocessor resolution returns the type's own preprocessor when one is set;
  otherwise, when a parent is set, it returns what the parent resolves to, and so on up
  the chain; with neither set it fails with the "no preprocessor" error.
\<close>

theorem preprocessor_resolution:
  "(own_preprocessor t = Some p \<longrightarrow> preprocessor t = Inr p) \<and>
   (own_preprocessor t = None \<and> parent t = Some par \<longrightarrow> preprocessor t = preprocessor par) \<and>
   (own_preprocessor t = None \<and> parent t = None \<longrightarrow>
      preprocessor t = Inl (Exception ''There is not preprocessor''))"
  by (cases t) auto

text \<open>
  A type with its own preprocessor, a grandchild of it with none of its own along the
  way, and a type with neither preprocessor nor parent.
\<close>

theorem preprocessor_resolution_witness:
  "preprocessor csv_type = Inr csv_preprocessor \<and>
   preprocessor (CloudDataType None None (Some (CloudDataType None None (Some csv_type)))) =
     Inr csv_preprocessor \<and>
   preprocessor (CloudDataType None None None) = Inl (Exception ''There is not preprocessor'')"
proof -
  let ?child = "CloudDataType None None (Some csv_type)"
  let ?grandchild = "CloudDataType None None (Some ?child)"
  have own: "own_preprocessor csv_type = Some csv_preprocessor"
    by (simp add: csv_type_def)
  from preprocessor_resolution [of csv_type csv_preprocessor] own
  have a: "preprocessor csv_type = Inr csv_preprocessor"
    by simp
  from preprocessor_resolution [of ?child _ csv_type]
  have b: "preprocessor ?child = preprocessor csv_type"
    by simp
  from preprocessor_resolution [of ?grandchild _ ?child]
  have c: "preprocessor ?grandchild = preprocessor ?child"
    by simp
  from preprocessor_resolution [of "CloudDataType None None None"]
  have d: "preprocessor (CloudDataType None None None) =
             Inl (Exception ''There is not preprocessor'')"
    by simp
  from a b c d show ?thesis by simp
qed

subsection \<open>Binding a class\<close>

text \<open>
  Claim C5. Binding is single-assignment. On a descriptor with no class bound, binding a
  class raises nothing and records that class, and changes nothing else; on a descriptor
  with a class bound, every further call raises and leaves the descriptor, with the class
  it has, as it is.
\<close>

theorem bind_single_assignment:
  "(co_class t = None \<and> isclass c \<longrightarrow>
      fst (CloudDataType_call t c) = None \<and>
      co_class (snd (CloudDataType_call t c)) = Some c \<and>
      own_preprocessor (snd (CloudDataType_call t c)) = own_preprocessor t \<and>
      parent (snd (CloudDataType_call t c)) = parent t) \<and>
   (co_class t \<noteq> None \<longrightarrow>
      fst (CloudDataType_call t x) \<noteq> None \<and> snd (CloudDataType_call t x) = t)"
  by (auto simp: CloudDataType_call_def)

theorem bind_single_assignment_witness:
  "fst (CloudDataType_call csv_type (PyClass ''CSV'')) = None \<and>
   co_class (snd (CloudDataType_call csv_type (PyClass ''CSV''))) = Some (PyClass ''CSV'') \<and>
   fst (CloudDataType_call (snd (CloudDataType_call csv_type (PyClass ''CSV''))) (PyClass ''TSV'')) \<noteq> None \<and>
   co_class (snd (CloudDataType_call (snd (CloudDataType_call csv_type (PyClass ''CSV'')))
                    (PyClass ''TSV''))) = Some (PyClass ''CSV'')"
proof -
  let ?bound = "snd (CloudDataType_call csv_type (PyClass ''CSV''))"
  have free: "co_class csv_type = None \<and> isclass (PyClass ''CSV'')"
    by (simp add: csv_type_def)
  from bind_single_assignment [of csv_type "PyClass ''CSV''"] free
  have a: "fst (CloudDataType_call csv_type (PyClass ''CSV'')) = None \<and>
           co_class ?bound = Some (PyClass ''CSV'')"
    by simp
  then have "co_class ?bound \<noteq> None"
    by simp
  with bind_single_assignment [of ?bound _ "PyClass ''TSV''"]
  have b: "fst (CloudDataType_call ?bound (PyClass ''TSV'')) \<noteq> None \<and>
           snd (CloudDataType_call ?bound (PyClass ''TSV'')) = ?bound"
    by simp
  from a b show ?thesis by simp
qed

subsection \<open>Creating an object from a local file\<close>




subsection \<open>Partitioning\<close>

text \<open>
  Claim C7. When the strategy returns its slices, \<^verbatim>\<open>partition\<close> returns as many
  slices, with the strategy's descriptors in the strategy's order, and each of them is
  bound to the invoking reference.
\<close>

theorem partition_contextualizes:
  "strategy co w = (Inr slices, co1, w1) \<Longrightarrow>
   (\<exists>out. CloudObject_partition co w strategy = (Inr out, co1, w1) \<and>
      length out = length slices \<and>
      map descriptor out = map descriptor slices \<and>
      (\<forall>s \<in> set out. cloud_object s = Some co1))"
  by (auto simp: CloudObject_partition_def contextualize_def comp_def)

theorem partition_contextualizes_witness:
  "\<exists>out. CloudObject_partition ref0 (store [primary_obj]) three_ranges =
            (Inr out, ref0, store [primary_obj]) \<and>
      length out = 3 \<and>
      map descriptor out = [(0, 4), (4, 8), (8, 10)] \<and>
      map cloud_object out = [Some ref0, Some ref0, Some ref0]"
proof -
  let ?slices = "[\<lparr>descriptor = (0::nat, 4::nat), cloud_object = None\<rparr>,
                  \<lparr>descriptor = (4, 8), cloud_object = None\<rparr>,
                  \<lparr>descriptor = (8, 10), cloud_object = None\<rparr>]"
  have run: "three_ranges ref0 (store [primary_obj]) = (Inr ?slices, ref0, store [primary_obj])"
    by (simp add: three_ranges_def)
  from partition_contextualizes [of three_ranges ref0 "store [primary_obj]", OF run]
  obtain out where
    res: "CloudObject_partition ref0 (store [primary_obj]) three_ranges =
            (Inr out, ref0, store [primary_obj])" and
    len: "length out = length ?slices" and
    descs: "map descriptor out = map descriptor ?slices" and
    owner: "\<forall>s \<in> set out. cloud_object s = Some ref0"
    by blast
  from len obtain a b c where out: "out = [a, b, c]"
    by (auto simp: length_Suc_conv)
  from owner out have "map cloud_object out = [Some ref0, Some ref0, Some ref0]"
    by simp
  with res len descs show ?thesis
    by auto
qed

subsection \<open>The attributes record\<close>

text \<open>
  Claim C8. The attributes record is never partially populated. After a fetch, whatever
  its flags and its outcome, the attributes record is the whole mapping decoded from the
  companion's payload when the fetch reaches the companion slot, that slot holds no
  record, the HEAD of the companion answers and the payload decodes; in every other case
  (the companion is not looked up, its HEAD raises, the payload does not decode) it is
  what it was before the call.
\<close>

theorem fetch_attrs_all_or_nothing:
  "fetch co w eo em = (r, co', w') \<Longrightarrow>
   obj_attrs co' =
     (if reaches_companion co w eo \<and> \<not> truthy (meta_meta co) then
        (case head_response w (bucket (meta_path co), key (meta_path co)) of
           Inr (res, enc) \<Rightarrow>
             (case load_attributes w enc of Inr a \<Rightarrow> a | Inl e \<Rightarrow> obj_attrs co)
         | Inl e \<Rightarrow> obj_attrs co)
      else obj_attrs co) \<and>
   (obj_attrs co' = obj_attrs co \<or>
      (\<exists>res enc. head_response w (bucket (meta_path co), key (meta_path co)) = Inr (res, enc) \<and>
                 load_attributes w enc = Inr (obj_attrs co'))) \<and>
   (\<forall>e. head_response w (bucket (meta_path co), key (meta_path co)) = Inl e \<longrightarrow>
      obj_attrs co' = obj_attrs co) \<and>
   (\<forall>res enc e. head_response w (bucket (meta_path co), key (meta_path co)) = Inr (res, enc) \<and>
      load_attributes w enc = Inl e \<longrightarrow> obj_attrs co' = obj_attrs co) \<and>
   (\<forall>res enc a. reaches_companion co w eo \<and> \<not> truthy (meta_meta co) \<and>
      head_response w (bucket (meta_path co), key (meta_path co)) = Inr (res, enc) \<and>
      load_attributes w enc = Inr a \<longrightarrow> obj_attrs co' = a) \<and>
   (\<forall>res enc a ret. head_response w (bucket (meta_path co), key (meta_path co)) = Inr (res, enc) \<and>
      load_attributes w enc = Inr a \<and> r = Inr (Some ret) \<longrightarrow> obj_attrs co' = a)"
  by (auto simp: fetch_def head_object_def Let_def reaches_companion_def
      split: if_splits sum.splits prod.splits option.splits)

text \<open>
  A companion that does not decode leaves the attributes empty, as the constructor made
  them; one that decodes replaces them, also when the object is enforced and present, as
  \<^verbatim>\<open>from_s3\<close> fetches; a store without a companion leaves them empty.
\<close>

theorem fetch_attrs_all_or_nothing_witness:
  "obj_attrs (fst (after_fetch (ref0, store [corrupt_companion_obj]))) = [] \<and>
   obj_attrs (fst (after_fetch (ref0, store [companion_obj]))) = [(''rows'', ''42'')] \<and>
   obj_attrs (fst (snd (fetch ref0 (store [primary_obj, companion_obj]) True False))) =
     [(''rows'', ''42'')] \<and>
   obj_attrs (fst (after_fetch (ref0, store []))) = []"
proof -
  let ?bad = "store [corrupt_companion_obj]"
  let ?good = "store [companion_obj]"
  let ?both = "store [primary_obj, companion_obj]"
  let ?none = "store []"
  have mp: "(bucket (meta_path ref0), key (meta_path ref0)) = (''bucket1.meta'', ''data.csv'')"
    by (simp add: ref0_def)
  have empty: "obj_attrs ref0 = [] \<and> \<not> truthy (meta_meta ref0)"
    by (simp add: ref0_def)
  have bad: "head_response ?bad (''bucket1.meta'', ''data.csv'') =
               Inr ([(''ContentLength'', ''7'')], ''corrupt'') \<and>
             load_attributes ?bad ''corrupt'' = Inl CorruptAttributes"
    by (simp add: example_defs)
  have good: "head_response ?good (''bucket1.meta'', ''data.csv'') =
                Inr ([(''ContentLength'', ''2'')], ''42'') \<and>
              load_attributes ?good ''42'' = Inr [(''rows'', ''42'')] \<and>
              reaches_companion ref0 ?good False"
    by (simp add: reaches_companion_def example_defs)
  have both: "head_response ?both (''bucket1.meta'', ''data.csv'') =
                Inr ([(''ContentLength'', ''2'')], ''42'') \<and>
              load_attributes ?both ''42'' = Inr [(''rows'', ''42'')] \<and>
              reaches_companion ref0 ?both True"
    by (simp add: reaches_companion_def example_defs)
  have none: "head_response ?none (''bucket1.meta'', ''data.csv'') = Inl KeyError"
    by (simp add: example_defs)
  from fetch_attrs_all_or_nothing [OF fetch_triple, of ref0 ?bad False False] mp bad empty
  have a: "obj_attrs (fst (after_fetch (ref0, ?bad))) = []"
    by (simp add: after_fetch_def)
  from fetch_attrs_all_or_nothing [OF fetch_triple, of ref0 ?good False False] mp good empty
  have b: "obj_attrs (fst (after_fetch (ref0, ?good))) = [(''rows'', ''42'')]"
    by (simp add: after_fetch_def)
  from fetch_attrs_all_or_nothing [OF fetch_triple, of ref0 ?both True False] mp both empty
  have c: "obj_attrs (fst (snd (fetch ref0 ?both True False))) = [(''rows'', ''42'')]"
    by simp
  from fetch_attrs_all_or_nothing [OF fetch_triple, of ref0 ?none False False] mp none empty
  have d: "obj_attrs (fst (after_fetch (ref0, ?none))) = []"
    by (simp add: after_fetch_def)
  from a b c d show ?thesis by simp
qed

subsection \<open>The location of the companion\<close>

text \<open>
  Claim C9. For every URI and every primary location that \<^verbatim>\<open>from_uri\<close> parses from
  it, the constructor succeeds and gives the reference of that location, with empty
  slots and attributes, whose companion location is the bucket with the suffix
  \<^verbatim>\<open>.meta\<close> and the same key; when the URI does not parse, the constructor fails with
  the parser's error. Every bucket without a slash and every key are the primary
  location of a URI. Constructing a reference without a fetch leaves the store as it
  is, with no call made. The URI \<^verbatim>\<open>store://bucket1/data.csv\<close> gives the primary
  location \<^verbatim>\<open>bucket1\<close>, \<^verbatim>\<open>data.csv\<close> and the companion location \<^verbatim>\<open>bucket1.meta\<close>,
  \<^verbatim>\<open>data.csv\<close>.
\<close>

theorem derived_metadata_location:
  "(\<forall>p. from_uri uri = Inr p \<longrightarrow>
      CloudObject_init dt uri cfg =
        Inr \<lparr>obj_meta = None, meta_meta = None, obj_path = p,
             meta_path = \<lparr>bucket = bucket p @ ''.meta'', key = key p\<rparr>,
             cls = dt, s3 = (case cfg of None \<Rightarrow> [] | Some c \<Rightarrow> c), obj_attrs = []\<rparr>) \<and>
   (\<forall>e. from_uri uri = Inl e \<longrightarrow> CloudObject_init dt uri cfg = Inl e) \<and>
   (\<forall>co. CloudObject_init dt uri cfg = Inr co \<longrightarrow>
      from_uri uri = Inr (obj_path co) \<and>
      meta_path co = \<lparr>bucket = bucket (obj_path co) @ ''.meta'', key = key (obj_path co)\<rparr>) \<and>
   (CHR '':'' \<notin> set scheme \<and> CHR ''/'' \<notin> set b \<longrightarrow>
      from_uri (scheme @ ''://'' @ b @ ''/'' @ k) = Inr \<lparr>bucket = b, key = k\<rparr>) \<and>
   snd (from_s3 dt uri cfg False w) = w \<and>
   (\<exists>co. CloudObject_init dt ''store://bucket1/data.csv'' cfg = Inr co \<and>
      obj_path co = \<lparr>bucket = ''bucket1'', key = ''data.csv''\<rparr> \<and>
      meta_path co = \<lparr>bucket = ''bucket1.meta'', key = ''data.csv''\<rparr>)"
proof -
  have parse: "CHR '':'' \<notin> set scheme \<and> CHR ''/'' \<notin> set b \<longrightarrow>
      from_uri (scheme @ ''://'' @ b @ ''/'' @ k) = Inr \<lparr>bucket = b, key = k\<rparr>"
    using from_uri_canonical [of scheme b k] by simp
  have init: "(\<forall>p. from_uri uri = Inr p \<longrightarrow>
      CloudObject_init dt uri cfg =
        Inr \<lparr>obj_meta = None, meta_meta = None, obj_path = p,
             meta_path = \<lparr>bucket = bucket p @ ''.meta'', key = key p\<rparr>,
             cls = dt, s3 = (case cfg of None \<Rightarrow> [] | Some c \<Rightarrow> c), obj_attrs = []\<rparr>) \<and>
   (\<forall>e. from_uri uri = Inl e \<longrightarrow> CloudObject_init dt uri cfg = Inl e) \<and>
   (\<forall>co. CloudObject_init dt uri cfg = Inr co \<longrightarrow>
      from_uri uri = Inr (obj_path co) \<and>
      meta_path co = \<lparr>bucket = bucket (obj_path co) @ ''.meta'', key = key (obj_path co)\<rparr>)"
    by (auto simp: CloudObject_init_def from_bucket_key_def split: sum.splits)
  have pure: "snd (from_s3 dt uri cfg False w) = w"
    by (simp add: from_s3_def split: sum.splits)
  have example: "\<exists>co. CloudObject_init dt ''store://bucket1/data.csv'' cfg = Inr co \<and>
      obj_path co = \<lparr>bucket = ''bucket1'', key = ''data.csv''\<rparr> \<and>
      meta_path co = \<lparr>bucket = ''bucket1.meta'', key = ''data.csv''\<rparr>"
    by (simp add: CloudObject_init_def from_uri_def split_s3_path_def from_bucket_key_def)
  show ?thesis
    by (intro conjI init [THEN conjunct1] init [THEN conjunct2, THEN conjunct1]
          init [THEN conjunct2, THEN conjunct2] parse pure example)
qed

theorem derived_metadata_location_witness:
  "CloudObject_init csv_type ''s3://bucket1/data.csv'' None =
     Inr \<lparr>obj_meta = None, meta_meta = None,
          obj_path = \<lparr>bucket = ''bucket1'', key = ''data.csv''\<rparr>,
          meta_path = \<lparr>bucket = ''bucket1.meta'', key = ''data.csv''\<rparr>,
          cls = csv_type, s3 = [], obj_attrs = []\<rparr> \<and>
   CloudObject_init csv_type ''bucket1/data.csv'' None = Inl MalformedURI \<and>
   from_uri ''gs://logs/2024/01/events.json'' =
     Inr \<lparr>bucket = ''logs'', key = ''2024/01/events.json''\<rparr>"
proof -
  let ?good = "''s3://bucket1/data.csv''"
  let ?bad = "''bucket1/data.csv''"
  have ok: "from_uri ?good = Inr \<lparr>bucket = ''bucket1'', key = ''data.csv''\<rparr>"
    by (simp add: from_uri_def split_s3_path_def from_bucket_key_def)
  have bad: "from_uri ?bad = Inl MalformedURI"
    by (simp add: from_uri_def split_s3_path_def)
  have chars: "CHR '':'' \<notin> set ''gs'' \<and> CHR ''/'' \<notin> set ''logs''"
    by simp
  note good_inst =
    derived_metadata_location
      [of ?good csv_type None "''gs''" "''logs''" "''2024/01/events.json''" "store []"]
  note bad_inst =
    derived_metadata_location
      [of ?bad csv_type None "''gs''" "''logs''" "''2024/01/events.json''" "store []"]
  from good_inst [THEN conjunct1] ok
  have a: "CloudObject_init csv_type ?good None =
             Inr \<lparr>obj_meta = None, meta_meta = None,
                  obj_path = \<lparr>bucket = ''bucket1'', key = ''data.csv''\<rparr>,
                  meta_path = \<lparr>bucket = ''bucket1.meta'', key = ''data.csv''\<rparr>,
                  cls = csv_type, s3 = [], obj_attrs = []\<rparr>"
    by simp
  from bad_inst [THEN conjunct2, THEN conjunct1] bad
  have b: "CloudObject_init csv_type ?bad None = Inl MalformedURI"
    by blast
  from good_inst [THEN conjunct2, THEN conjunct2, THEN conjunct2, THEN conjunct1] chars
  have c: "from_uri ''gs://logs/2024/01/events.json'' =
             Inr \<lparr>bucket = ''logs'', key = ''2024/01/events.json''\<rparr>"
    by simp
  from a b c show ?thesis by (intro conjI)
qed

subsection \<open>What an existence check touches\<close>

text \<open>
  Claim C10, as amended. On a reference whose object slot holds no record,
  \<^verbatim>\<open>exists()\<close> issues the HEAD of the object first, and changes neither the two
  locations nor the type nor the store handle. When the companion slot holds no record
  either and the HEAD of the object answers, it issues the HEAD of the companion as well,
  and when that HEAD answers a record whose payload decodes, the companion slot holds the
  record and the attributes are the decoded mapping afterwards. When the companion slot
  already holds a record, the HEAD of the object is the only call, and the companion slot
  and the attributes stay as they are.
\<close>

theorem exists_probes_companion:
  "exists co w = (r, co', w') \<Longrightarrow> \<not> truthy (obj_meta co) \<Longrightarrow>
   obj_path co' = obj_path co \<and> meta_path co' = meta_path co \<and> cls co' = cls co \<and>
   s3 co' = s3 co \<and>
   (\<exists>rest. calls w' = calls w @ HeadObject (bucket (obj_path co)) (key (obj_path co)) # rest) \<and>
   (truthy (meta_meta co) \<longrightarrow>
      calls w' = calls w @ [HeadObject (bucket (obj_path co)) (key (obj_path co))] \<and>
      meta_meta co' = meta_meta co \<and> obj_attrs co' = obj_attrs co) \<and>
   (\<not> truthy (meta_meta co) \<and> answers w (obj_path co) \<longrightarrow>
      calls w' = calls w @ [HeadObject (bucket (obj_path co)) (key (obj_path co)),
                            HeadObject (bucket (meta_path co)) (key (meta_path co))]) \<and>
   (\<forall>res enc a. \<not> truthy (meta_meta co) \<and> answers w (obj_path co) \<and>
      head_response w (bucket (meta_path co), key (meta_path co)) = Inr (res, enc) \<and>
      load_attributes w enc = Inr a \<longrightarrow>
      meta_meta co' = Some res \<and> obj_attrs co' = a)"
  by (auto simp: exists_def fetch_def head_object_def Let_def answers_def
      split: if_splits sum.splits prod.splits option.splits)

text \<open>
  On a store that holds both objects, the existence check of a fresh reference issues
  both lookups and fills the companion slot and the attributes. On a reference whose
  companion slot holds a record and whose object slot holds none, it keeps the companion
  slot and the attributes.
\<close>

theorem exists_probes_companion_witness:
  "calls (snd (snd (exists ref0 (store [primary_obj, companion_obj])))) =
     [HeadObject ''bucket1'' ''data.csv'', HeadObject ''bucket1.meta'' ''data.csv''] \<and>
   meta_meta (fst (snd (exists ref0 (store [primary_obj, companion_obj])))) =
     Some [(''ContentLength'', ''2'')] \<and>
   obj_attrs (fst (snd (exists ref0 (store [primary_obj, companion_obj])))) = [(''rows'', ''42'')] \<and>
   obj_path (fst (snd (exists ref0 (store [primary_obj, companion_obj])))) = obj_path ref0 \<and>
   cls (fst (snd (exists ref0 (store [primary_obj, companion_obj])))) = csv_type \<and>
   meta_meta (fst (snd (exists (fst (after_fetch (ref0, store [companion_obj])))
                               (snd (after_fetch (ref0, store [companion_obj])))))) =
     meta_meta (fst (after_fetch (ref0, store [companion_obj]))) \<and>
   obj_attrs (fst (snd (exists (fst (after_fetch (ref0, store [companion_obj])))
                               (snd (after_fetch (ref0, store [companion_obj])))))) =
     obj_attrs (fst (after_fetch (ref0, store [companion_obj])))"
proof -
  let ?w = "store [primary_obj, companion_obj]"
  let ?c1 = "fst (after_fetch (ref0, store [companion_obj]))"
  let ?w1 = "snd (after_fetch (ref0, store [companion_obj]))"
  have half: "\<not> truthy (obj_meta ?c1) \<and> truthy (meta_meta ?c1)"
    by (simp add: run_defs example_defs)
  from exists_probes_companion [OF exists_triple, of ?c1 ?w1] half
  have kept: "meta_meta (fst (snd (exists ?c1 ?w1))) = meta_meta ?c1 \<and>
              obj_attrs (fst (snd (exists ?c1 ?w1))) = obj_attrs ?c1"
    by simp
  have slots: "\<not> truthy (obj_meta ref0) \<and> \<not> truthy (meta_meta ref0)"
    by (simp add: ref0_def)
  have paths: "obj_path ref0 = \<lparr>bucket = ''bucket1'', key = ''data.csv''\<rparr> \<and>
               meta_path ref0 = \<lparr>bucket = ''bucket1.meta'', key = ''data.csv''\<rparr> \<and>
               cls ref0 = csv_type"
    by (simp add: ref0_def)
  have ans: "answers ?w (obj_path ref0)"
    by (simp add: answers_def example_defs)
  have companion: "head_response ?w (''bucket1.meta'', ''data.csv'') =
                     Inr ([(''ContentLength'', ''2'')], ''42'') \<and>
                   load_attributes ?w ''42'' = Inr [(''rows'', ''42'')] \<and> calls ?w = []"
    by (simp add: example_defs)
  from exists_probes_companion [OF exists_triple, of ref0 ?w] slots ans paths companion
  have "calls (snd (snd (exists ref0 ?w))) =
          [HeadObject ''bucket1'' ''data.csv'', HeadObject ''bucket1.meta'' ''data.csv''] \<and>
        meta_meta (fst (snd (exists ref0 ?w))) = Some [(''ContentLength'', ''2'')] \<and>
        obj_attrs (fst (snd (exists ref0 ?w))) = [(''rows'', ''42'')] \<and>
        obj_path (fst (snd (exists ref0 ?w))) = obj_path ref0 \<and>
        cls (fst (snd (exists ref0 ?w))) = csv_type"
    by simp
  with kept show ?thesis
    by simp
qed

text \<open>
  Claim C10 as stated fails in two places. After a fetch on a store that holds the
  companion only, the object slot holds no record and the companion slot holds one: the
  existence check then issues the HEAD of the object and no HEAD of the companion. And
  on a store whose companion does not decode, the existence check of a fresh reference
  raises the decode error and the attributes are not replaced.
\<close>

theorem exists_skips_resolved_companion:
  "obj_meta (fst (after_fetch (ref0, store [companion_obj]))) = None \<and>
   meta_meta (fst (after_fetch (ref0, store [companion_obj]))) = Some [(''ContentLength'', ''2'')] \<and>
   calls (snd (after_fetch (ref0, store [companion_obj]))) =
     [HeadObject ''bucket1'' ''data.csv'', HeadObject ''bucket1.meta'' ''data.csv''] \<and>
   calls (snd (snd (exists (fst (after_fetch (ref0, store [companion_obj])))
                           (snd (after_fetch (ref0, store [companion_obj])))))) =
     [HeadObject ''bucket1'' ''data.csv'', HeadObject ''bucket1.meta'' ''data.csv'',
      HeadObject ''bucket1'' ''data.csv''] \<and>
   fst (exists ref0 (store [corrupt_companion_obj])) = Inl CorruptAttributes \<and>
   obj_attrs (fst (snd (exists ref0 (store [corrupt_companion_obj])))) = []"
  by (simp add: run_defs example_defs)

end
